theory Spec2Isabelle
  imports Complex_Main "HOL-Library.Word" "HOL-Library.Signed_Division"
begin

unbundle bit_operations_syntax

section \<open>The rio HAL component (rio.c)\<close>

text \<open>
  A shallow embedding of \<^verbatim>\<open>update_freq\<close>, \<^verbatim>\<open>spi_write\<close>, \<^verbatim>\<open>spi_read\<close>,
  \<^verbatim>\<open>spi_transfer\<close>, \<^verbatim>\<open>parse_ctrl_type\<close> and the initial values of
  \<^verbatim>\<open>rtapi_app_main\<close>.

  Conventions.
  \<^item> \<^verbatim>\<open>float\<close> and \<^verbatim>\<open>double\<close> are modelled by \<open>real\<close>: rounding, infinities and the
    narrowing of \<^verbatim>\<open>double\<close> to \<^verbatim>\<open>float\<close> are not modelled. Where the source divides by
    a value that a claim takes to zero, the division is written with \<open>fdiv\<close>, which has no
    value for a zero divisor.
  \<^item> \<^verbatim>\<open>int32_t\<close>, \<^verbatim>\<open>int64_t\<close>, \<^verbatim>\<open>hal_s32_t\<close> and \<^verbatim>\<open>uint8_t\<close> are words; signed
    subtraction and addition wrap.
  \<^item> An array indexed by the joint or channel number is a function from the index.
  \<^item> A HAL pin is modelled by the value it holds. The one exception is
    \<^verbatim>\<open>stepperEnable\<close>, kept as an array of pin addresses into \<open>hal_bit\<close>, because
    \<^verbatim>\<open>update_freq\<close> and \<^verbatim>\<open>spi_write\<close> dereference it differently.
  \<^item> The macros, tables and packet types of \<^verbatim>\<open>rio.h\<close> are the fields of \<open>config\<close>.
\<close>

subsection \<open>rio.h: constants and tables\<close>

datatype fb_type = JOINT_FB_ABS | JOINT_FB_REL

datatype vout_type_t = VOUT_TYPE_SINE | VOUT_TYPE_PWM | VOUT_TYPE_RCSERVO | VOUT_TYPE_OTHER

record config =
  JOINTS :: nat
  JOINT_ENABLE_BYTES :: nat
  VARIABLE_OUTPUTS :: nat
  VARIABLE_INPUTS :: nat
  DIGITAL_OUTPUT_BYTES :: nat
  DIGITAL_INPUT_BYTES :: nat
  PRU_BASEFREQ :: real
  PRU_OSC :: real
  STEP_MASK :: real
  PRU_DATA :: "32 word"
  PRU_READ :: "32 word"
  PRU_WRITE :: "32 word"
  PRU_ESTOP :: "32 word"
  joints_fb_scale :: "nat \<Rightarrow> 32 word"
  joints_fb_type :: "nat \<Rightarrow> fb_type"
  vout_type :: "nat \<Rightarrow> vout_type_t"
  vout_freq :: "nat \<Rightarrow> real"
  vout_min :: "nat \<Rightarrow> real"
  vout_max :: "nat \<Rightarrow> real"
  ctrl_type :: "nat \<Rightarrow> string option"

text \<open>
  \<open>ctrl_type\<close> is the module parameter \<^verbatim>\<open>char *ctrl_type[JOINTS]\<close>; \<open>None\<close> is a null
  entry. \<^verbatim>\<open>rio.h\<close> is not part of the sources at hand, so the types of its tables are
  read off their uses: \<^verbatim>\<open>joints_fb_scale\<close> divides the 32-bit feedback counter in
  place and is taken as a table of 32-bit integers; the frequencies and ranges of the
  variable outputs and the three frequency constants are taken as reals. The inbound
  process values are taken as 32-bit signed integers. The last output type has no name in
  \<^verbatim>\<open>rio.c\<close> (it is the final \<^verbatim>\<open>else\<close>) and is called \<open>VOUT_TYPE_OTHER\<close> here; the
  feedback type that is not \<^verbatim>\<open>JOINT_FB_ABS\<close> is called \<open>JOINT_FB_REL\<close>. The two case
  labels of the \<^verbatim>\<open>switch\<close> in \<^verbatim>\<open>spi_read\<close> must differ for the file to compile.
\<close>

definition labels_distinct :: "config \<Rightarrow> bool" where
  "labels_distinct cfg \<longleftrightarrow> PRU_DATA cfg \<noteq> PRU_ESTOP cfg"

subsection \<open>Packets and state\<close>

type_synonym addr = nat

definition NULL :: addr where
  "NULL = 0"

record txData_t =
  tx_header :: "32 word"
  jointFreqCmd :: "nat \<Rightarrow> real option"
  jointEnable :: "nat \<Rightarrow> 8 word"
  tx_setPoint :: "nat \<Rightarrow> real option"
  tx_outputs :: "nat \<Rightarrow> 8 word"

record rxData_t =
  rx_header :: "32 word"
  jointFeedback :: "nat \<Rightarrow> 32 word"
  rx_processVariable :: "nat \<Rightarrow> 32 word"
  rx_inputs :: "nat \<Rightarrow> 8 word"

text \<open>
  The numeric fields of the outbound packet hold the quotient the source computes, before
  its conversion to the wire integer; \<open>None\<close> records a division by zero.
\<close>

record data_t =
  SPIenable :: bool
  SPIreset :: bool
  PRUreset :: bool
  SPIresetOld :: bool
  SPIstatus :: bool
  stepperEnable :: "nat \<Rightarrow> addr"
  pos_mode :: "nat \<Rightarrow> bool"
  pos_cmd :: "nat \<Rightarrow> real"
  vel_cmd :: "nat \<Rightarrow> real"
  pos_fb :: "nat \<Rightarrow> real"
  count :: "nat \<Rightarrow> 32 word"
  pos_scale :: "nat \<Rightarrow> real"
  freq :: "nat \<Rightarrow> real"
  freq_cmd :: "nat \<Rightarrow> real"
  maxvel :: "nat \<Rightarrow> real"
  maxaccel :: "nat \<Rightarrow> real"
  pgain :: "nat \<Rightarrow> real"
  ff1gain :: "nat \<Rightarrow> real"
  deadband :: "nat \<Rightarrow> real"
  old_scale :: "nat \<Rightarrow> real"
  scale_recip :: "nat \<Rightarrow> real"
  prev_cmd :: "nat \<Rightarrow> real"
  cmd_d :: "nat \<Rightarrow> real"
  setPoint :: "nat \<Rightarrow> real"
  processVariable :: "nat \<Rightarrow> real"
  outputs :: "nat \<Rightarrow> bool"
  inputs :: "nat \<Rightarrow> bool"

datatype msg = Estop_active | Bad_payload "32 word"

text \<open>
  The component's whole state: the shared \<^verbatim>\<open>data_t\<close> block, the file-scope variables,
  the memory behind the enable pins, and two traces of what the component did to the
  outside: the packets it clocked out (\<open>wire\<close>) and the messages it printed (\<open>msgs\<close>).
\<close>

record rio =
  data :: data_t
  txData :: txData_t
  rxData :: rxData_t
  old_dtns :: int
  dt :: real
  recip_dt :: real
  accum :: "nat \<Rightarrow> 64 word"
  old_count :: "nat \<Rightarrow> 32 word"
  accum_diff :: "32 word"
  hal_bit :: "addr \<Rightarrow> bool"
  wire :: "txData_t list"
  msgs :: "msg list"

subsection \<open>Loops and arithmetic helpers\<close>

text \<open>\<^verbatim>\<open>for (i = 0; i < n; i++) body\<close>: iteration \<open>0\<close> runs first, \<open>n - 1\<close> last.\<close>

primrec for_upto :: "nat \<Rightarrow> (nat \<Rightarrow> 's \<Rightarrow> 's) \<Rightarrow> 's \<Rightarrow> 's" where
  "for_upto 0 body s = s"
| "for_upto (Suc n) body s = body n (for_upto n body s)"

definition fdiv :: "real \<Rightarrow> real \<Rightarrow> real option" where
  "fdiv a b = (if b = 0 then None else Some (a / b))"

text \<open>C's \<^verbatim>\<open>/\<close> on 32-bit signed integers truncates towards zero.\<close>

definition int32_div :: "32 word \<Rightarrow> 32 word \<Rightarrow> 32 word" where
  "int32_div x k = word_of_int (sint x sdiv sint k)"

subsection \<open>One joint's registers\<close>

text \<open>
  Both per-joint loops touch only element \<open>i\<close> of each array. \<open>get_joint i\<close> reads those
  elements into a record, the loop body works on the record, and \<open>put_cmd\<close> (for
  \<^verbatim>\<open>update_freq\<close>) or \<open>put_fb\<close> (for \<^verbatim>\<open>spi_read\<close>) stores back the elements that loop
  assigns.
\<close>

record joint =
  pos_mode_i :: bool
  pos_cmd_i :: real
  vel_cmd_i :: real
  pos_fb_i :: real
  count_i :: "32 word"
  pos_scale_i :: real
  freq_i :: real
  freq_cmd_i :: real
  maxvel_i :: real
  maxaccel_i :: real
  pgain_i :: real
  ff1gain_i :: real
  deadband_i :: real
  old_scale_i :: real
  scale_recip_i :: real
  prev_cmd_i :: real
  cmd_d_i :: real
  jointFeedback_i :: "32 word"
  accum_i :: "64 word"
  old_count_i :: "32 word"

definition get_joint :: "nat \<Rightarrow> rio \<Rightarrow> joint" where
  "get_joint i s =
     \<lparr> pos_mode_i = pos_mode (data s) i,
       pos_cmd_i = pos_cmd (data s) i,
       vel_cmd_i = vel_cmd (data s) i,
       pos_fb_i = pos_fb (data s) i,
       count_i = count (data s) i,
       pos_scale_i = pos_scale (data s) i,
       freq_i = freq (data s) i,
       freq_cmd_i = freq_cmd (data s) i,
       maxvel_i = maxvel (data s) i,
       maxaccel_i = maxaccel (data s) i,
       pgain_i = pgain (data s) i,
       ff1gain_i = ff1gain (data s) i,
       deadband_i = deadband (data s) i,
       old_scale_i = old_scale (data s) i,
       scale_recip_i = scale_recip (data s) i,
       prev_cmd_i = prev_cmd (data s) i,
       cmd_d_i = cmd_d (data s) i,
       jointFeedback_i = jointFeedback (rxData s) i,
       accum_i = accum s i,
       old_count_i = old_count s i \<rparr>"

definition put_cmd :: "nat \<Rightarrow> joint \<Rightarrow> rio \<Rightarrow> rio" where
  "put_cmd i j s =
     s\<lparr> data := (data s)
          \<lparr> pos_scale := (pos_scale (data s))(i := pos_scale_i j),
            freq := (freq (data s))(i := freq_i j),
            freq_cmd := (freq_cmd (data s))(i := freq_cmd_i j),
            maxvel := (maxvel (data s))(i := maxvel_i j),
            maxaccel := (maxaccel (data s))(i := maxaccel_i j),
            old_scale := (old_scale (data s))(i := old_scale_i j),
            scale_recip := (scale_recip (data s))(i := scale_recip_i j),
            prev_cmd := (prev_cmd (data s))(i := prev_cmd_i j),
            cmd_d := (cmd_d (data s))(i := cmd_d_i j) \<rparr> \<rparr>"

definition put_fb :: "nat \<Rightarrow> joint \<Rightarrow> rio \<Rightarrow> rio" where
  "put_fb i j s =
     s\<lparr> data := (data s)
          \<lparr> pos_fb := (pos_fb (data s))(i := pos_fb_i j),
            count := (count (data s))(i := count_i j),
            scale_recip := (scale_recip (data s))(i := scale_recip_i j) \<rparr>,
        rxData := (rxData s)
          \<lparr> jointFeedback := (jointFeedback (rxData s))(i := jointFeedback_i j) \<rparr>,
        accum := (accum s)(i := accum_i j),
        old_count := (old_count s)(i := old_count_i j) \<rparr>"

subsection \<open>update\_freq\<close>

text \<open>Lines 535--544: the scale-change check.\<close>

definition check_scale :: "config \<Rightarrow> joint \<Rightarrow> joint" where
  "check_scale cfg j =
     (if pos_scale_i j \<noteq> old_scale_i j then
        let j1 = j\<lparr>old_scale_i := pos_scale_i j\<rparr>;
            j2 = (if pos_scale_i j1 < 1 / 10 ^ 20 \<and> pos_scale_i j1 > - (1 / 10 ^ 20)
                  then j1\<lparr>pos_scale_i := 1\<rparr> else j1)
        in j2\<lparr>scale_recip_i := (1 / STEP_MASK cfg) / pos_scale_i j2\<rparr>
      else j)"

text \<open>Lines 546--568: the frequency limit; returns the local \<^verbatim>\<open>max_freq\<close>.\<close>

definition limit_maxvel :: "config \<Rightarrow> joint \<Rightarrow> joint \<times> real" where
  "limit_maxvel cfg j =
     (let max_freq = PRU_BASEFREQ cfg / 2 in
      if maxvel_i j \<le> 0 then (j\<lparr>maxvel_i := 0\<rparr>, max_freq)
      else
        let desired_freq = maxvel_i j * \<bar>pos_scale_i j\<bar> in
        if desired_freq > max_freq
        then (j\<lparr>maxvel_i := max_freq / \<bar>pos_scale_i j\<bar>\<rparr>, max_freq)
        else (j, maxvel_i j * \<bar>pos_scale_i j\<bar>))"

text \<open>Lines 570--589: the acceleration limit; returns the local \<^verbatim>\<open>max_ac\<close>.\<close>

definition limit_maxaccel :: "real \<Rightarrow> real \<Rightarrow> joint \<Rightarrow> joint \<times> real" where
  "limit_maxaccel recip max_freq j =
     (let max_ac = max_freq * recip in
      if maxaccel_i j \<le> 0 then (j\<lparr>maxaccel_i := 0\<rparr>, max_ac)
      else if maxaccel_i j * \<bar>pos_scale_i j\<bar> > max_ac
      then (j\<lparr>maxaccel_i := max_ac / \<bar>pos_scale_i j\<bar>\<rparr>, max_ac)
      else (j, maxaccel_i j * \<bar>pos_scale_i j\<bar>))"

text \<open>Lines 602--621: gains and deadband, with their defaults for a zero pin.\<close>

definition pgain_eff :: "joint \<Rightarrow> real" where
  "pgain_eff j = (if pgain_i j \<noteq> 0 then pgain_i j else 1)"

definition ff1gain_eff :: "joint \<Rightarrow> real" where
  "ff1gain_eff j = (if ff1gain_i j \<noteq> 0 then ff1gain_i j else 1)"

definition deadband_eff :: "joint \<Rightarrow> real" where
  "deadband_eff j = (if deadband_i j \<noteq> 0 then deadband_i j else 1 / pos_scale_i j)"

text \<open>Lines 630--639: the deadband applied to the error.\<close>

definition apply_deadband :: "real \<Rightarrow> real \<Rightarrow> real" where
  "apply_deadband db e =
     (if e > db then e - db else if e < - db then e + db else 0)"

text \<open>
  Lines 596--657: the control law; returns the local \<^verbatim>\<open>vel_cmd\<close>. \<open>error_of\<close> is the
  local \<^verbatim>\<open>error\<close> after the deadband.
\<close>

definition error_of :: "joint \<Rightarrow> real" where
  "error_of j = apply_deadband (deadband_eff j) (pos_cmd_i j - pos_fb_i j)"

definition control :: "real \<Rightarrow> joint \<Rightarrow> joint \<times> real" where
  "control periodrecip j =
     (if pos_mode_i j then
        let command = pos_cmd_i j;
            error = error_of j;
            j1 = j\<lparr>cmd_d_i := (command - prev_cmd_i j) * periodrecip\<rparr>;
            j2 = j1\<lparr>prev_cmd_i := command\<rparr>
        in (j2, pgain_eff j * error + cmd_d_i j2 * ff1gain_eff j)
      else (j, vel_cmd_i j))"

text \<open>Lines 661--667 and 672--681: the two clamps.\<close>

definition limit_freq :: "real \<Rightarrow> real \<Rightarrow> real" where
  "limit_freq max_freq v =
     (if v > max_freq then max_freq else if v < - max_freq then - max_freq else v)"

definition limit_slew :: "real \<Rightarrow> real \<Rightarrow> real \<Rightarrow> real" where
  "limit_slew f dv v =
     (if v > f + dv then f + dv else if v < f - dv then f - dv else v)"

text \<open>
  The body of the joint loop. \<open>pin0_null\<close> is the test of line 684,
  \<^verbatim>\<open>*data->stepperEnable == 0\<close>: \<^verbatim>\<open>data->stepperEnable\<close> is the array of pin pointers,
  so the expression is its element 0, a pointer, compared with the null pointer. It reads
  neither joint \<open>i\<close>'s pin nor any pin's value.
\<close>

definition joint_update :: "config \<Rightarrow> real \<Rightarrow> real \<Rightarrow> real \<Rightarrow> bool \<Rightarrow> joint \<Rightarrow> joint" where
  "joint_update cfg periodrecip dt_s recip_dt_s pin0_null j =
     (let j1 = check_scale cfg j;
          (j2, max_freq) = limit_maxvel cfg j1;
          (j3, max_ac) = limit_maxaccel recip_dt_s max_freq j2;
          (j4, v) = control periodrecip j3;
          v1 = v * pos_scale_i j4;
          v2 = limit_freq max_freq v1;
          dv = max_ac * dt_s;
          new_vel = limit_slew (freq_i j4) dv v2;
          new_vel1 = (if pin0_null then 0 else new_vel);
          j5 = j4\<lparr>freq_i := new_vel1\<rparr>
      in j5\<lparr>freq_cmd_i := freq_i j5\<rparr>)"

definition update_axis :: "config \<Rightarrow> real \<Rightarrow> nat \<Rightarrow> rio \<Rightarrow> rio" where
  "update_axis cfg periodrecip i s =
     put_cmd i
       (joint_update cfg periodrecip (dt s) (recip_dt s)
          (stepperEnable (data s) 0 = NULL) (get_joint i s)) s"

text \<open>Lines 521--531: the timing constants, recomputed when the period changes.\<close>

definition period_check :: "int \<Rightarrow> rio \<Rightarrow> rio" where
  "period_check period s =
     (if period \<noteq> old_dtns s then
        let s1 = s\<lparr>old_dtns := period\<rparr>;
            s2 = s1\<lparr>dt := real_of_int period * 0.000000001\<rparr>
        in s2\<lparr>recip_dt := 1 / dt s2\<rparr>
      else s)"

definition update_freq :: "config \<Rightarrow> int \<Rightarrow> rio \<Rightarrow> rio" where
  "update_freq cfg period s =
     (let periodfp = real_of_int period * 0.000000001;
          periodrecip = 1 / periodfp
      in for_upto (JOINTS cfg) (update_axis cfg periodrecip) (period_check period s))"

subsection \<open>spi\_transfer\<close>

text \<open>
  The duplex exchange: the outbound packet goes on the wire and the inbound packet is
  replaced by what the board answers (\<open>reply\<close>). The byte loop and the chip-select line
  are not modelled.
\<close>

definition spi_transfer :: "rxData_t \<Rightarrow> rio \<Rightarrow> rio" where
  "spi_transfer reply s = s\<lparr>rxData := reply, wire := wire s @ [txData s]\<rparr>"

subsection \<open>spi\_read\<close>

text \<open>Lines 726--744: one joint's feedback; returns the new \<^verbatim>\<open>accum_diff\<close>.\<close>

definition read_joint :: "config \<Rightarrow> nat \<Rightarrow> 32 word \<Rightarrow> joint \<Rightarrow> joint \<times> 32 word" where
  "read_joint cfg i d0 j =
     (let j1 = j\<lparr>jointFeedback_i := int32_div (jointFeedback_i j) (joints_fb_scale cfg i)\<rparr> in
      if joints_fb_type cfg i = JOINT_FB_ABS then
        (j1\<lparr>pos_fb_i := real_of_int (sint (jointFeedback_i j1)) / pos_scale_i j1\<rparr>, d0)
      else
        let d = jointFeedback_i j1 - old_count_i j1;
            j2 = j1\<lparr>old_count_i := jointFeedback_i j1\<rparr>;
            j3 = j2\<lparr>accum_i := accum_i j2 + scast d\<rparr>;
            j4 = j3\<lparr>count_i := ucast (accum_i j3)\<rparr>;
            j5 = j4\<lparr>scale_recip_i := pos_scale_i j4\<rparr>;
            curr_pos = real_of_int (sint (accum_i j5))
        in (j5\<lparr>pos_fb_i := (curr_pos + 0.5) / pos_scale_i j5\<rparr>, d))"

definition read_axis :: "config \<Rightarrow> nat \<Rightarrow> rio \<Rightarrow> rio" where
  "read_axis cfg i s =
     (let (j, d) = read_joint cfg i (accum_diff s) (get_joint i s)
      in put_fb i j (s\<lparr>accum_diff := d\<rparr>))"

text \<open>Lines 751--753.\<close>

definition read_pv :: "nat \<Rightarrow> rio \<Rightarrow> rio" where
  "read_pv i s =
     s\<lparr>data := (data s)\<lparr>processVariable := (processVariable (data s))
          (i := real_of_int (sint (rx_processVariable (rxData s) i)))\<rparr>\<rparr>"

text \<open>Lines 756--767.\<close>

definition read_input :: "nat \<Rightarrow> nat \<Rightarrow> rio \<Rightarrow> rio" where
  "read_input bi i s =
     (if rx_inputs (rxData s) bi AND push_bit i 1 \<noteq> 0 then
        s\<lparr>data := (data s)\<lparr>inputs := (inputs (data s))
             (bi * 8 + i * 2 := True, bi * 8 + i * 2 + 1 := False)\<rparr>\<rparr>
      else
        s\<lparr>data := (data s)\<lparr>inputs := (inputs (data s))
             (bi * 8 + i * 2 := False, bi * 8 + i * 2 + 1 := True)\<rparr>\<rparr>)"

text \<open>Lines 721--768: \<^verbatim>\<open>case PRU_DATA\<close>.\<close>

definition on_data :: "config \<Rightarrow> rio \<Rightarrow> rio" where
  "on_data cfg s =
     (let s1 = s\<lparr>data := (data s)\<lparr>SPIstatus := True\<rparr>\<rparr>;
          s2 = for_upto (JOINTS cfg) (read_axis cfg) s1;
          s3 = for_upto (VARIABLE_INPUTS cfg) read_pv s2
      in for_upto (DIGITAL_INPUT_BYTES cfg) (\<lambda>bi. for_upto 8 (read_input bi)) s3)"

text \<open>Lines 770--773: \<^verbatim>\<open>case PRU_ESTOP\<close>, which has no \<^verbatim>\<open>break\<close>.\<close>

definition on_estop :: "rio \<Rightarrow> rio" where
  "on_estop s = s\<lparr>data := (data s)\<lparr>SPIstatus := False\<rparr>, msgs := msgs s @ [Estop_active]\<rparr>"

text \<open>Lines 775--783: \<^verbatim>\<open>default\<close>.\<close>

definition on_default :: "rio \<Rightarrow> rio" where
  "on_default s =
     s\<lparr>data := (data s)\<lparr>SPIstatus := False\<rparr>,
       msgs := msgs s @ [Bad_payload (rx_header (rxData s))]\<rparr>"

text \<open>The condition of line 714.\<close>

definition attempt :: "rio \<Rightarrow> bool" where
  "attempt s \<longleftrightarrow>
     (SPIreset (data s) \<and> \<not> SPIresetOld (data s)) \<or> SPIstatus (data s)"

definition spi_read :: "config \<Rightarrow> rxData_t \<Rightarrow> rio \<Rightarrow> rio" where
  "spi_read cfg reply s =
     (let s1 = s\<lparr>txData := (txData s)\<lparr>tx_header := PRU_READ cfg\<rparr>\<rparr>;
          s2 = (if SPIenable (data s1) then
                  if attempt s1 then
                    let s' = spi_transfer reply s1 in
                    if rx_header (rxData s') = PRU_DATA cfg then on_data cfg s'
                    else if rx_header (rxData s') = PRU_ESTOP cfg then on_default (on_estop s')
                    else on_default s'
                  else s1
                else s1\<lparr>data := (data s1)\<lparr>SPIstatus := False\<rparr>\<rparr>)
      in s2\<lparr>data := (data s2)\<lparr>SPIresetOld := SPIreset (data s2)\<rparr>\<rparr>)"

subsection \<open>spi\_write\<close>

text \<open>Lines 805--807.\<close>

definition write_freq :: "config \<Rightarrow> nat \<Rightarrow> rio \<Rightarrow> rio" where
  "write_freq cfg i s =
     s\<lparr>txData := (txData s)\<lparr>jointFreqCmd := (jointFreqCmd (txData s))
          (i := fdiv (PRU_OSC cfg) (freq (data s) i))\<rparr>\<rparr>"

text \<open>Lines 810--817.\<close>

definition write_enable_bit :: "nat \<Rightarrow> nat \<Rightarrow> rio \<Rightarrow> rio" where
  "write_enable_bit bi i s =
     (if hal_bit s (stepperEnable (data s) (bi * 8 + i)) then
        s\<lparr>txData := (txData s)\<lparr>jointEnable := (jointEnable (txData s))
             (bi := jointEnable (txData s) bi OR push_bit i 1)\<rparr>\<rparr>
      else s)"

definition write_enable :: "config \<Rightarrow> nat \<Rightarrow> rio \<Rightarrow> rio" where
  "write_enable cfg bi s =
     for_upto (JOINTS cfg) (write_enable_bit bi)
       (s\<lparr>txData := (txData s)\<lparr>jointEnable := (jointEnable (txData s))(bi := 0)\<rparr>\<rparr>)"

text \<open>Lines 820--833; \<^verbatim>\<open>0xFFFFFFFF / 2\<close> is an integer constant.\<close>

definition encode_setpoint :: "config \<Rightarrow> nat \<Rightarrow> real \<Rightarrow> real option" where
  "encode_setpoint cfg i sp =
     (if vout_type cfg i = VOUT_TYPE_SINE then
        (case fdiv (PRU_OSC cfg) sp of None \<Rightarrow> None | Some q \<Rightarrow> fdiv q (vout_freq cfg i))
      else if vout_type cfg i = VOUT_TYPE_PWM then
        (case fdiv (PRU_OSC cfg) (vout_freq cfg i) of None \<Rightarrow> None
         | Some q \<Rightarrow> Some (sp * q / 100))
      else if vout_type cfg i = VOUT_TYPE_RCSERVO then
        Some ((sp + 200 + 100) * (PRU_OSC cfg / 200000))
      else fdiv ((sp - vout_min cfg i) * 2147483647) (vout_max cfg i - vout_min cfg i))"

definition write_setpoint :: "config \<Rightarrow> nat \<Rightarrow> rio \<Rightarrow> rio" where
  "write_setpoint cfg i s =
     s\<lparr>txData := (txData s)\<lparr>tx_setPoint := (tx_setPoint (txData s))
          (i := encode_setpoint cfg i (setPoint (data s) i))\<rparr>\<rparr>"

text \<open>Lines 836--843.\<close>

definition write_output_bit :: "nat \<Rightarrow> nat \<Rightarrow> rio \<Rightarrow> rio" where
  "write_output_bit bi i s =
     (if outputs (data s) (bi * 8 + i) then
        s\<lparr>txData := (txData s)\<lparr>tx_outputs := (tx_outputs (txData s))
             (bi := tx_outputs (txData s) bi OR push_bit i 1)\<rparr>\<rparr>
      else s)"

definition write_output :: "nat \<Rightarrow> rio \<Rightarrow> rio" where
  "write_output bi s =
     for_upto 8 (write_output_bit bi)
       (s\<lparr>txData := (txData s)\<lparr>tx_outputs := (tx_outputs (txData s))(bi := 0)\<rparr>\<rparr>)"

definition spi_write :: "config \<Rightarrow> rxData_t \<Rightarrow> rio \<Rightarrow> rio" where
  "spi_write cfg reply s =
     (let s1 = s\<lparr>txData := (txData s)\<lparr>tx_header := PRU_WRITE cfg\<rparr>\<rparr>;
          s2 = for_upto (JOINTS cfg) (write_freq cfg) s1;
          s3 = for_upto (JOINT_ENABLE_BYTES cfg) (write_enable cfg) s2;
          s4 = for_upto (VARIABLE_OUTPUTS cfg) (write_setpoint cfg) s3;
          s5 = for_upto (DIGITAL_OUTPUT_BYTES cfg) write_output s4
      in if SPIstatus (data s5) then spi_transfer reply s5 else s5)"

subsection \<open>rtapi\_app\_main: the state the component starts in\<close>

datatype CONTROL = POSITION | VELOCITY | INVALID

fun parse_ctrl_type :: "string option \<Rightarrow> CONTROL" where
  "parse_ctrl_type None = POSITION"
| "parse_ctrl_type (Some []) = POSITION"
| "parse_ctrl_type (Some (c # cs)) =
     (if c = CHR ''p'' \<or> c = CHR ''P'' then POSITION
      else if c = CHR ''v'' \<or> c = CHR ''V'' then VELOCITY
      else INVALID)"

text \<open>Lines 137--144: every joint below \<open>n\<close> has a valid control type.\<close>

primrec ctrl_types_ok :: "config \<Rightarrow> nat \<Rightarrow> bool" where
  "ctrl_types_ok cfg 0 = True"
| "ctrl_types_ok cfg (Suc n) =
     (ctrl_types_ok cfg n \<and> parse_ctrl_type (ctrl_type cfg n) \<noteq> INVALID)"

text \<open>
  The memory before \<^verbatim>\<open>rtapi_app_main\<close> assigns anything. The file-scope variables are
  static, hence zero. The \<^verbatim>\<open>data_t\<close> block comes from \<^verbatim>\<open>hal_malloc\<close>, which carves it
  out of the HAL shared-memory segment. \<^verbatim>\<open>rio.c\<close> never assigns \<^verbatim>\<open>freq\<close>, \<^verbatim>\<open>maxvel\<close>,
  \<^verbatim>\<open>old_scale\<close>, \<^verbatim>\<open>scale_recip\<close>, \<^verbatim>\<open>prev_cmd\<close>, \<^verbatim>\<open>cmd_d\<close> and \<^verbatim>\<open>SPIresetOld\<close>
  before it reads them, nor the pins it exports without writing them; the model assumes
  that this memory is zero-filled, as a freshly created shared-memory segment is.
\<close>

definition zero_data :: data_t where
  "zero_data =
     \<lparr> SPIenable = False, SPIreset = False, PRUreset = False, SPIresetOld = False,
       SPIstatus = False, stepperEnable = (\<lambda>n. NULL), pos_mode = (\<lambda>n. False),
       pos_cmd = (\<lambda>n. 0), vel_cmd = (\<lambda>n. 0), pos_fb = (\<lambda>n. 0), count = (\<lambda>n. 0),
       pos_scale = (\<lambda>n. 0), freq = (\<lambda>n. 0), freq_cmd = (\<lambda>n. 0), maxvel = (\<lambda>n. 0),
       maxaccel = (\<lambda>n. 0), pgain = (\<lambda>n. 0), ff1gain = (\<lambda>n. 0), deadband = (\<lambda>n. 0),
       old_scale = (\<lambda>n. 0), scale_recip = (\<lambda>n. 0), prev_cmd = (\<lambda>n. 0),
       cmd_d = (\<lambda>n. 0), setPoint = (\<lambda>n. 0), processVariable = (\<lambda>n. 0),
       outputs = (\<lambda>n. False), inputs = (\<lambda>n. False) \<rparr>"

definition zero_rio :: rio where
  "zero_rio =
     \<lparr> data = zero_data,
       txData = \<lparr> tx_header = 0, jointFreqCmd = (\<lambda>n. Some 0), jointEnable = (\<lambda>n. 0),
                  tx_setPoint = (\<lambda>n. Some 0), tx_outputs = (\<lambda>n. 0) \<rparr>,
       rxData = \<lparr> rx_header = 0, jointFeedback = (\<lambda>n. 0), rx_processVariable = (\<lambda>n. 0),
                  rx_inputs = (\<lambda>n. 0) \<rparr>,
       old_dtns = 0, dt = 0, recip_dt = 0, accum = (\<lambda>n. 0), old_count = (\<lambda>n. 0),
       accum_diff = 0, hal_bit = (\<lambda>a. False), wire = [], msgs = [] \<rparr>"

text \<open>
  \<^verbatim>\<open>hal_pin_bit_newf\<close> stores the address of the new pin and returns 0 only then; the
  address is never null. Which address it is does not matter.
\<close>

definition pin_addr :: "nat \<Rightarrow> addr" where
  "pin_addr n = Suc n"

text \<open>Lines 220--280: the exports and initial values of joint \<open>n\<close>.\<close>

definition init_joint :: "config \<Rightarrow> nat \<Rightarrow> rio \<Rightarrow> rio" where
  "init_joint cfg n s =
     (let d = data s;
          d1 = d\<lparr>pos_mode := (pos_mode d)(n := (parse_ctrl_type (ctrl_type cfg n) = POSITION))\<rparr>;
          d2 = d1\<lparr>stepperEnable := (stepperEnable d1)(n := pin_addr n)\<rparr>;
          d3 = d2\<lparr>pos_cmd := (pos_cmd d2)(n := 0)\<rparr>;
          d4 = (if \<not> pos_mode d3 n then d3\<lparr>vel_cmd := (vel_cmd d3)(n := 0)\<rparr> else d3);
          d5 = d4\<lparr>freq_cmd := (freq_cmd d4)(n := 0)\<rparr>;
          d6 = d5\<lparr>pos_fb := (pos_fb d5)(n := 0)\<rparr>;
          d7 = d6\<lparr>pos_scale := (pos_scale d6)(n := 1)\<rparr>;
          d8 = d7\<lparr>count := (count d7)(n := 0)\<rparr>;
          d9 = d8\<lparr>pgain := (pgain d8)(n := 0)\<rparr>;
          d10 = d9\<lparr>ff1gain := (ff1gain d9)(n := 0)\<rparr>;
          d11 = d10\<lparr>deadband := (deadband d10)(n := 0)\<rparr>;
          d12 = d11\<lparr>maxaccel := (maxaccel d11)(n := 1)\<rparr>
      in s\<lparr>data := d12\<rparr>)"

text \<open>Lines 282--313: set points, process values, digital outputs and inputs.\<close>

definition init_sp :: "nat \<Rightarrow> rio \<Rightarrow> rio" where
  "init_sp n s = s\<lparr>data := (data s)\<lparr>setPoint := (setPoint (data s))(n := 0)\<rparr>\<rparr>"

definition init_pv :: "nat \<Rightarrow> rio \<Rightarrow> rio" where
  "init_pv n s = s\<lparr>data := (data s)\<lparr>processVariable := (processVariable (data s))(n := 0)\<rparr>\<rparr>"

definition init_output :: "nat \<Rightarrow> nat \<Rightarrow> rio \<Rightarrow> rio" where
  "init_output bn n s =
     s\<lparr>data := (data s)\<lparr>outputs := (outputs (data s))(bn * 8 + n := False)\<rparr>\<rparr>"

definition init_input :: "nat \<Rightarrow> nat \<Rightarrow> rio \<Rightarrow> rio" where
  "init_input bn n s =
     s\<lparr>data := (data s)\<lparr>inputs := (inputs (data s))
          (bn * 8 + n * 2 := False, bn * 8 + n * 2 + 1 := True)\<rparr>\<rparr>"

text \<open>
  \<open>None\<close> is the \<^verbatim>\<open>return -1\<close> for a bad control type. The failures of the HAL and of
  the SPI library are outside the model.
\<close>

definition rtapi_app_main :: "config \<Rightarrow> rio option" where
  "rtapi_app_main cfg =
     (if \<not> ctrl_types_ok cfg (JOINTS cfg) then None
      else
        let s1 = for_upto (JOINTS cfg) (init_joint cfg) zero_rio;
            s2 = for_upto (VARIABLE_OUTPUTS cfg) init_sp s1;
            s3 = for_upto (VARIABLE_INPUTS cfg) init_pv s2;
            s4 = for_upto (DIGITAL_OUTPUT_BYTES cfg) (\<lambda>bn. for_upto 8 (init_output bn)) s3
        in Some (for_upto (DIGITAL_INPUT_BYTES cfg) (\<lambda>bn. for_upto 8 (init_input bn)) s4))"

subsection \<open>The host and the thread\<close>

text \<open>
  Between two calls of the component's functions the rest of LinuxCNC may write the pins
  exported with \<^verbatim>\<open>HAL_IN\<close> and the parameters exported with \<^verbatim>\<open>HAL_RW\<close>
  (\<^verbatim>\<open>scale\<close> and \<^verbatim>\<open>maxaccel\<close>; \<^verbatim>\<open>maxvel\<close> is never exported). A write to a pin that
  was not exported does nothing.
\<close>

datatype hal_write =
    Set_SPIenable bool
  | Set_SPIreset bool
  | Set_PRUreset bool
  | Set_enable nat bool
  | Set_pos_cmd nat real
  | Set_vel_cmd nat real
  | Set_pgain nat real
  | Set_ff1gain nat real
  | Set_deadband nat real
  | Set_scale nat real
  | Set_maxaccel nat real
  | Set_SP nat real
  | Set_output nat bool

fun host_write :: "config \<Rightarrow> hal_write \<Rightarrow> rio \<Rightarrow> rio" where
  "host_write cfg (Set_SPIenable b) s = s\<lparr>data := (data s)\<lparr>SPIenable := b\<rparr>\<rparr>"
| "host_write cfg (Set_SPIreset b) s = s\<lparr>data := (data s)\<lparr>SPIreset := b\<rparr>\<rparr>"
| "host_write cfg (Set_PRUreset b) s = s\<lparr>data := (data s)\<lparr>PRUreset := b\<rparr>\<rparr>"
| "host_write cfg (Set_enable n b) s =
     (if n < JOINTS cfg then s\<lparr>hal_bit := (hal_bit s)(stepperEnable (data s) n := b)\<rparr> else s)"
| "host_write cfg (Set_pos_cmd n x) s =
     (if n < JOINTS cfg then s\<lparr>data := (data s)\<lparr>pos_cmd := (pos_cmd (data s))(n := x)\<rparr>\<rparr> else s)"
| "host_write cfg (Set_vel_cmd n x) s =
     (if n < JOINTS cfg \<and> \<not> pos_mode (data s) n
      then s\<lparr>data := (data s)\<lparr>vel_cmd := (vel_cmd (data s))(n := x)\<rparr>\<rparr> else s)"
| "host_write cfg (Set_pgain n x) s =
     (if n < JOINTS cfg then s\<lparr>data := (data s)\<lparr>pgain := (pgain (data s))(n := x)\<rparr>\<rparr> else s)"
| "host_write cfg (Set_ff1gain n x) s =
     (if n < JOINTS cfg then s\<lparr>data := (data s)\<lparr>ff1gain := (ff1gain (data s))(n := x)\<rparr>\<rparr> else s)"
| "host_write cfg (Set_deadband n x) s =
     (if n < JOINTS cfg then s\<lparr>data := (data s)\<lparr>deadband := (deadband (data s))(n := x)\<rparr>\<rparr> else s)"
| "host_write cfg (Set_scale n x) s =
     (if n < JOINTS cfg then s\<lparr>data := (data s)\<lparr>pos_scale := (pos_scale (data s))(n := x)\<rparr>\<rparr> else s)"
| "host_write cfg (Set_maxaccel n x) s =
     (if n < JOINTS cfg then s\<lparr>data := (data s)\<lparr>maxaccel := (maxaccel (data s))(n := x)\<rparr>\<rparr> else s)"
| "host_write cfg (Set_SP n x) s =
     (if n < VARIABLE_OUTPUTS cfg
      then s\<lparr>data := (data s)\<lparr>setPoint := (setPoint (data s))(n := x)\<rparr>\<rparr> else s)"
| "host_write cfg (Set_output n b) s =
     (if n < DIGITAL_OUTPUT_BYTES cfg * 8
      then s\<lparr>data := (data s)\<lparr>outputs := (outputs (data s))(n := b)\<rparr>\<rparr> else s)"

text \<open>
  One step of the system: a write by the host, or a call of one of the three exported
  functions. \<open>Update_freq\<close> carries the period in nanoseconds; \<open>Spi_write\<close> and \<open>Spi_read\<close>
  carry the packet the board would answer if the call makes an exchange.
\<close>

datatype event = Host hal_write | Update_freq int | Spi_write rxData_t | Spi_read rxData_t

fun step :: "config \<Rightarrow> event \<Rightarrow> rio \<Rightarrow> rio" where
  "step cfg (Host w) s = host_write cfg w s"
| "step cfg (Update_freq period) s = update_freq cfg period s"
| "step cfg (Spi_write reply) s = spi_write cfg reply s"
| "step cfg (Spi_read reply) s = spi_read cfg reply s"

primrec run :: "config \<Rightarrow> event list \<Rightarrow> rio \<Rightarrow> rio" where
  "run cfg [] s = s"
| "run cfg (st # sts) s = run cfg sts (step cfg st s)"



subsection \<open>A sample configuration\<close>

text \<open>
  Two position-mode joints with incremental feedback, one channel of each other kind.
  The values stand in for \<^verbatim>\<open>rio.h\<close> where a property is evaluated on concrete numbers.
\<close>

definition sample :: config where
  "sample =
     \<lparr> JOINTS = 2, JOINT_ENABLE_BYTES = 1, VARIABLE_OUTPUTS = 1, VARIABLE_INPUTS = 1,
       DIGITAL_OUTPUT_BYTES = 1, DIGITAL_INPUT_BYTES = 1,
       PRU_BASEFREQ = 120000, PRU_OSC = 16000000, STEP_MASK = 4194304,
       PRU_DATA = 0x64617461, PRU_READ = 0x72656164, PRU_WRITE = 0x77726974,
       PRU_ESTOP = 0x65737470,
       joints_fb_scale = (\<lambda>n. 1), joints_fb_type = (\<lambda>n. JOINT_FB_REL),
       vout_type = (\<lambda>n. VOUT_TYPE_PWM), vout_freq = (\<lambda>n. 10000),
       vout_min = (\<lambda>n. 0), vout_max = (\<lambda>n. 100),
       ctrl_type = (\<lambda>n. if n = 0 then Some ''p'' else None) \<rparr>"

subsection \<open>Notions used in the statements\<close>

text \<open>
  What the link handshake shows to the outside: the enable, reset and status pins, the
  stored previous reset value, the packets sent and the messages printed.
\<close>

definition link :: "rio \<Rightarrow> bool \<times> bool \<times> bool \<times> bool \<times> txData_t list \<times> msg list" where
  "link s = (SPIenable (data s), SPIreset (data s), SPIresetOld (data s), SPIstatus (data s),
             wire s, msgs s)"

text \<open>The outbound packet as \<^verbatim>\<open>spi_write\<close> has filled it when it reaches line 845.\<close>

definition packed :: "config \<Rightarrow> rio \<Rightarrow> rio" where
  "packed cfg s =
     for_upto (DIGITAL_OUTPUT_BYTES cfg) write_output
       (for_upto (VARIABLE_OUTPUTS cfg) (write_setpoint cfg)
         (for_upto (JOINT_ENABLE_BYTES cfg) (write_enable cfg)
           (for_upto (JOINTS cfg) (write_freq cfg)
             (s\<lparr>txData := (txData s)\<lparr>tx_header := PRU_WRITE cfg\<rparr>\<rparr>))))"

fun is_read :: "event \<Rightarrow> bool" where
  "is_read (Spi_read reply) = True"
| "is_read e = False"



text \<open>Concrete packets and states for the examples.\<close>

definition reply_with :: "32 word \<Rightarrow> 32 word \<Rightarrow> rxData_t" where
  "reply_with h raw =
     \<lparr> rx_header = h, jointFeedback = (\<lambda>n. raw), rx_processVariable = (\<lambda>n. 0),
       rx_inputs = (\<lambda>n. 0) \<rparr>"

definition idle :: rio where
  "idle = zero_rio\<lparr>data := zero_data\<lparr>SPIenable := True\<rparr>\<rparr>"

definition linked :: rio where
  "linked = zero_rio\<lparr>data := zero_data\<lparr>SPIenable := True, SPIstatus := True\<rparr>\<rparr>"

text \<open>
  The registers of a joint that \<^verbatim>\<open>update_freq\<close> only reads, and those that the feedback
  loop of \<^verbatim>\<open>spi_read\<close> only reads.
\<close>

definition rest_cmd :: "joint \<Rightarrow>
    bool \<times> real \<times> real \<times> real \<times> 32 word \<times> real \<times> real \<times> real \<times> 32 word \<times> 64 word \<times> 32 word" where
  "rest_cmd j = (pos_mode_i j, pos_cmd_i j, vel_cmd_i j, pos_fb_i j, count_i j, pgain_i j,
                 ff1gain_i j, deadband_i j, jointFeedback_i j, accum_i j, old_count_i j)"


text \<open>
  The local variables of one iteration of the joint loop of \<^verbatim>\<open>update_freq\<close>, as
  functions of the joint's registers \<open>j\<close> when the iteration starts: \<^verbatim>\<open>max_freq\<close>,
  \<^verbatim>\<open>max_ac\<close> (for the cached reciprocal period \<open>r\<close>), the registers when the control
  law runs, the control law's \<^verbatim>\<open>vel_cmd\<close> (for the reciprocal period \<open>pr\<close> of this
  call), and \<^verbatim>\<open>vel_cmd\<close> after scaling and the frequency clamp, which is the target of
  the slew limit.
\<close>

definition max_freq_of :: "config \<Rightarrow> joint \<Rightarrow> real" where
  "max_freq_of cfg j = snd (limit_maxvel cfg (check_scale cfg j))"

definition at_accel :: "config \<Rightarrow> joint \<Rightarrow> joint" where
  "at_accel cfg j = fst (limit_maxvel cfg (check_scale cfg j))"

definition max_ac_of :: "config \<Rightarrow> real \<Rightarrow> joint \<Rightarrow> real" where
  "max_ac_of cfg r j = snd (limit_maxaccel r (max_freq_of cfg j) (at_accel cfg j))"

definition at_control :: "config \<Rightarrow> real \<Rightarrow> joint \<Rightarrow> joint" where
  "at_control cfg r j = fst (limit_maxaccel r (max_freq_of cfg j) (at_accel cfg j))"

definition vel_cmd_of :: "config \<Rightarrow> real \<Rightarrow> real \<Rightarrow> joint \<Rightarrow> real" where
  "vel_cmd_of cfg pr r j = snd (control pr (at_control cfg r j))"

definition target_of :: "config \<Rightarrow> real \<Rightarrow> real \<Rightarrow> joint \<Rightarrow> real" where
  "target_of cfg pr r j =
     limit_freq (max_freq_of cfg j) (vel_cmd_of cfg pr r j * pos_scale_i (at_control cfg r j))"

text \<open>The local \<^verbatim>\<open>periodrecip\<close> of a call with the given period.\<close>

definition periodrecip_of :: "int \<Rightarrow> real" where
  "periodrecip_of period = 1 / (real_of_int period * 0.000000001)"

text \<open>What iteration \<open>i\<close> of the joint loop of \<^verbatim>\<open>update_freq\<close> reads.\<close>

definition cmd_view :: "nat \<Rightarrow> rio \<Rightarrow> joint \<times> real \<times> real \<times> bool" where
  "cmd_view i s = (get_joint i s, dt s, recip_dt s, stepperEnable (data s) 0 = NULL)"







text \<open>
  States of the sample configuration: as \<^verbatim>\<open>rtapi_app_main\<close> leaves it; with joint 0 set
  up for the step-response scenario; and with the link up after a reset pulse and one valid
  exchange.
\<close>

definition s_start :: rio where
  "s_start = the (rtapi_app_main sample)"

definition s_step :: rio where
  "s_step = run sample [Host (Set_scale 0 1000), Host (Set_pgain 0 1), Host (Set_pos_cmd 0 1)] s_start"


section \<open>Loops and the link handshake\<close>

lemma for_upto_frame:
  assumes "\<And>i s. f (body i s) = f s"
  shows "f (for_upto n body s) = f s"
  by (induction n) (simp_all add: assms)

lemma for_upto_slice:
  assumes other: "\<And>j s. j \<noteq> i \<Longrightarrow> v (body j s) = v s"
    and same: "\<And>s. v (body i s) = g (v s)"
  shows "v (for_upto n body s) = (if i < n then g (v s) else v s)"
proof (induction n)
  case 0
  show ?case by simp
next
  case (Suc n)
  show ?case
  proof (cases "i = n")
    case True
    from Suc True have "v (for_upto n body s) = v s" by simp
    then have "v (body i (for_upto n body s)) = g (v s)" by (simp add: same)
    with True show ?thesis by simp
  next
    case False
    with Suc show ?thesis by (simp add: other less_Suc_eq)
  qed
qed

lemma link_put_cmd: "link (put_cmd i j s) = link s"
  by (simp add: link_def put_cmd_def)

lemma link_put_fb: "link (put_fb i j s) = link s"
  by (simp add: link_def put_fb_def)

lemma link_update_axis: "link (update_axis cfg pr i s) = link s"
  by (simp add: update_axis_def link_put_cmd)

lemma link_period_check: "link (period_check period s) = link s"
  by (simp add: period_check_def link_def Let_def)

lemma link_update_freq: "link (update_freq cfg period s) = link s"
  by (simp add: update_freq_def Let_def for_upto_frame [where f = link] link_update_axis
      link_period_check)

lemma link_read_axis: "link (read_axis cfg i s) = link s"
  by (simp add: read_axis_def split_def Let_def link_put_fb) (simp add: link_def)

lemma link_read_pv: "link (read_pv i s) = link s"
  by (simp add: read_pv_def link_def)

lemma link_read_input: "link (read_input bi i s) = link s"
  by (simp add: read_input_def link_def)

lemma link_on_data:
  "link (on_data cfg s) =
     (SPIenable (data s), SPIreset (data s), SPIresetOld (data s), True, wire s, msgs s)"
  by (simp add: on_data_def Let_def for_upto_frame [where f = link] link_read_axis
      link_read_pv link_read_input) (simp add: link_def)


lemma link_write_freq: "link (write_freq cfg i s) = link s"
  by (simp add: write_freq_def link_def)

lemma link_write_enable_bit: "link (write_enable_bit bi i s) = link s"
  by (simp add: write_enable_bit_def link_def)

lemma link_write_enable: "link (write_enable cfg bi s) = link s"
  by (simp add: write_enable_def for_upto_frame [where f = link] link_write_enable_bit)
     (simp add: link_def)

lemma link_write_setpoint: "link (write_setpoint cfg i s) = link s"
  by (simp add: write_setpoint_def link_def)

lemma link_write_output_bit: "link (write_output_bit bi i s) = link s"
  by (simp add: write_output_bit_def link_def)

lemma link_write_output: "link (write_output bi s) = link s"
  by (simp add: write_output_def for_upto_frame [where f = link] link_write_output_bit)
     (simp add: link_def)

lemma txData_spi_transfer: "txData (spi_transfer reply s) = txData s"
  by (simp add: spi_transfer_def)

lemma link_packed: "link (packed cfg s) = link s"
  by (simp add: packed_def for_upto_frame [where f = link] link_write_freq link_write_enable
      link_write_setpoint link_write_output) (simp add: link_def)

lemma spi_write_packed:
  "spi_write cfg reply s =
     (if SPIstatus (data s) then spi_transfer reply (packed cfg s) else packed cfg s)"
proof -
  have "SPIstatus (data (packed cfg s)) = SPIstatus (data s)"
    using link_packed [of cfg s] by (simp add: link_def)
  then show ?thesis
    by (simp add: spi_write_def packed_def Let_def)
qed

lemma link_spi_write:
  "link (spi_write cfg reply s) =
     (SPIenable (data s), SPIreset (data s), SPIresetOld (data s), SPIstatus (data s),
      (if SPIstatus (data s) then wire s @ [txData (packed cfg s)] else wire s), msgs s)"
  using link_packed [of cfg s]
  by (simp add: spi_write_packed spi_transfer_def link_def)

lemma link_spi_read:
  "link (spi_read cfg reply s) =
     (SPIenable (data s), SPIreset (data s), SPIreset (data s),
      SPIenable (data s) \<and> attempt s \<and> rx_header reply = PRU_DATA cfg,
      (if SPIenable (data s) \<and> attempt s
       then wire s @ [(txData s)\<lparr>tx_header := PRU_READ cfg\<rparr>] else wire s),
      (if SPIenable (data s) \<and> attempt s \<and> rx_header reply \<noteq> PRU_DATA cfg
       then msgs s @ (if rx_header reply = PRU_ESTOP cfg then [Estop_active] else [])
              @ [Bad_payload (rx_header reply)]
       else msgs s))"
  by (auto simp add: spi_read_def Let_def attempt_def spi_transfer_def on_default_def on_estop_def
      link_on_data [unfolded link_def prod.inject] link_def)

lemmas update_freq_link = link_update_freq [unfolded link_def prod.inject]

lemmas spi_write_link = link_spi_write [unfolded link_def prod.inject]

lemmas spi_read_link = link_spi_read [unfolded link_def prod.inject]

lemma status_host_write: "SPIstatus (data (host_write cfg w s)) = SPIstatus (data s)"
  by (cases w) simp_all

lemma status_step_other:
  "\<not> is_read e \<Longrightarrow> SPIstatus (data (step cfg e s)) = SPIstatus (data s)"
  by (cases e) (simp_all add: update_freq_link spi_write_link status_host_write)

lemma run_append: "run cfg (xs @ ys) s = run cfg ys (run cfg xs s)"
  by (induction xs arbitrary: s) simp_all

lemma is_read_cases: "is_read e \<Longrightarrow> \<exists>reply. e = Spi_read reply"
  by (cases e) simp_all

lemma status_trace:
  "SPIstatus (data (run cfg evs s)) \<Longrightarrow>
     (SPIstatus (data s) \<and> (\<forall>e\<in>set evs. \<not> is_read e)) \<or>
     (\<exists>pre reply post. evs = pre @ Spi_read reply # post \<and> (\<forall>e\<in>set post. \<not> is_read e) \<and>
        SPIenable (data (run cfg pre s)) \<and> attempt (run cfg pre s) \<and>
        rx_header reply = PRU_DATA cfg)"
proof (induction evs rule: rev_induct)
  case Nil
  then show ?case by simp
next
  case (snoc e evs)
  show ?case
  proof (cases "is_read e")
    case True
    then obtain reply where e: "e = Spi_read reply"
      using is_read_cases by blast
    with snoc.prems have "SPIenable (data (run cfg evs s)) \<and> attempt (run cfg evs s) \<and>
        rx_header reply = PRU_DATA cfg"
      by (simp add: run_append spi_read_link)
    then have "evs @ [e] = evs @ Spi_read reply # [] \<and> (\<forall>e\<in>set []. \<not> is_read e) \<and>
        SPIenable (data (run cfg evs s)) \<and> attempt (run cfg evs s) \<and>
        rx_header reply = PRU_DATA cfg"
      using e by simp
    then show ?thesis by blast
  next
    case False
    with snoc.prems have "SPIstatus (data (run cfg evs s))"
      by (simp add: run_append status_step_other)
    from snoc.IH [OF this] show ?thesis
    proof
      assume "SPIstatus (data s) \<and> (\<forall>e\<in>set evs. \<not> is_read e)"
      with False show ?thesis by simp
    next
      assume "\<exists>pre reply post. evs = pre @ Spi_read reply # post \<and>
        (\<forall>e\<in>set post. \<not> is_read e) \<and> SPIenable (data (run cfg pre s)) \<and>
        attempt (run cfg pre s) \<and> rx_header reply = PRU_DATA cfg"
      then obtain pre reply post where "evs = pre @ Spi_read reply # post"
        "\<forall>e\<in>set post. \<not> is_read e" "SPIenable (data (run cfg pre s))"
        "attempt (run cfg pre s)" "rx_header reply = PRU_DATA cfg" by blast
      with False have "evs @ [e] = pre @ Spi_read reply # (post @ [e]) \<and>
        (\<forall>e\<in>set (post @ [e]). \<not> is_read e) \<and> SPIenable (data (run cfg pre s)) \<and>
        attempt (run cfg pre s) \<and> rx_header reply = PRU_DATA cfg" by simp
      then show ?thesis by blast
    qed
  qed
qed

lemma link_init_joint: "link (init_joint cfg n s) = link s"
  by (simp add: init_joint_def Let_def link_def)

lemma link_init_sp: "link (init_sp n s) = link s"
  by (simp add: init_sp_def link_def)

lemma link_init_pv: "link (init_pv n s) = link s"
  by (simp add: init_pv_def link_def)

lemma link_init_output: "link (init_output bn n s) = link s"
  by (simp add: init_output_def link_def)

lemma link_init_input: "link (init_input bn n s) = link s"
  by (simp add: init_input_def link_def)

lemma link_rtapi_app_main:
  "rtapi_app_main cfg = Some s \<Longrightarrow> link s = (False, False, False, False, [], [])"
  by (auto simp add: rtapi_app_main_def Let_def for_upto_frame [where f = link] link_init_joint
      link_init_sp link_init_pv link_init_output link_init_input split: if_splits)
     (simp add: link_def zero_rio_def zero_data_def)

lemmas rtapi_app_main_link = link_rtapi_app_main [unfolded link_def prod.inject]


section \<open>Claims about the link handshake\<close>



text \<open>
  C5. After a call of \<^verbatim>\<open>spi_read\<close> the status pin is true exactly when the link was
  enabled, an exchange was attempted and the inbound header was the valid-data tag; so a
  call with the e-stop tag, with any other tag, or with the link disabled leaves it
  false. No other step changes the pin: in every state reached from
  \<^verbatim>\<open>rtapi_app_main\<close> in which the status is true, the last call of \<^verbatim>\<open>spi_read\<close> was
  enabled, made an exchange and received the valid-data tag.
\<close>

theorem status_follows_valid_read:
  "(SPIstatus (data (spi_read cfg reply s)) \<longleftrightarrow>
      SPIenable (data s) \<and> attempt s \<and> rx_header reply = PRU_DATA cfg) \<and>
   (rtapi_app_main cfg = Some s0 \<longrightarrow> SPIstatus (data (run cfg evs s0)) \<longrightarrow>
      (\<exists>pre r post. evs = pre @ Spi_read r # post \<and> (\<forall>e\<in>set post. \<not> is_read e) \<and>
         SPIenable (data (run cfg pre s0)) \<and> attempt (run cfg pre s0) \<and>
         rx_header r = PRU_DATA cfg))"
  using status_trace [of cfg evs s0] rtapi_app_main_link [of cfg s0]
  by (auto simp add: spi_read_link)

theorem status_follows_valid_read_witness:
  "SPIstatus (data (run sample
      [Host (Set_SPIenable True), Host (Set_SPIreset True),
       Spi_read (reply_with (PRU_DATA sample) 7), Update_freq 1000000]
      (the (rtapi_app_main sample)))) \<and>
   (\<exists>pre r post.
      [Host (Set_SPIenable True), Host (Set_SPIreset True),
       Spi_read (reply_with (PRU_DATA sample) 7), Update_freq 1000000] = pre @ Spi_read r # post \<and>
      (\<forall>e\<in>set post. \<not> is_read e) \<and>
      SPIenable (data (run sample pre (the (rtapi_app_main sample)))) \<and>
      attempt (run sample pre (the (rtapi_app_main sample))) \<and>
      rx_header r = PRU_DATA sample)"
proof -
  have ok: "ctrl_types_ok sample (JOINTS sample)"
    by (simp add: sample_def numeral_2_eq_2)
  then have m: "rtapi_app_main sample = Some (the (rtapi_app_main sample))"
    by (simp add: rtapi_app_main_def Let_def)
  have st: "SPIstatus (data (run sample
      [Host (Set_SPIenable True), Host (Set_SPIreset True),
       Spi_read (reply_with (PRU_DATA sample) 7), Update_freq 1000000]
      (the (rtapi_app_main sample))))"
    using rtapi_app_main_link [OF m]
    by (simp add: update_freq_link spi_read_link attempt_def reply_with_def)
  with status_follows_valid_read [of sample "reply_with 0 0" idle "the (rtapi_app_main sample)"
      "[Host (Set_SPIenable True), Host (Set_SPIreset True),
        Spi_read (reply_with (PRU_DATA sample) 7), Update_freq 1000000]"] m
  show ?thesis by blast
qed

text \<open>
  C7. When \<^verbatim>\<open>spi_read\<close> makes an exchange and the inbound header is the e-stop tag, the
  status pin is false afterwards (so a true status becomes false) and the feedback
  registers keep their values: position feedback, raw counts, accumulators, stored
  previous counters, process values and digital inputs.
\<close>

theorem estop_keeps_feedback:
  assumes "labels_distinct cfg" and "SPIenable (data s)" and "attempt s"
    and "rx_header reply = PRU_ESTOP cfg"
  shows "\<not> SPIstatus (data (spi_read cfg reply s)) \<and>
         wire (spi_read cfg reply s) = wire s @ [(txData s)\<lparr>tx_header := PRU_READ cfg\<rparr>] \<and>
         pos_fb (data (spi_read cfg reply s)) = pos_fb (data s) \<and>
         count (data (spi_read cfg reply s)) = count (data s) \<and>
         accum (spi_read cfg reply s) = accum s \<and>
         old_count (spi_read cfg reply s) = old_count s \<and>
         processVariable (data (spi_read cfg reply s)) = processVariable (data s) \<and>
         inputs (data (spi_read cfg reply s)) = inputs (data s)"
  using assms
  by (auto simp add: spi_read_def Let_def spi_transfer_def on_default_def on_estop_def
      labels_distinct_def attempt_def)

theorem estop_keeps_feedback_witness:
  "SPIstatus (data linked) \<and>
   \<not> SPIstatus (data (spi_read sample (reply_with (PRU_ESTOP sample) 7) linked)) \<and>
   pos_fb (data (spi_read sample (reply_with (PRU_ESTOP sample) 7) linked)) = pos_fb (data linked) \<and>
   accum (spi_read sample (reply_with (PRU_ESTOP sample) 7) linked) = accum linked"
proof -
  have 1: "labels_distinct sample" by (simp add: labels_distinct_def sample_def)
  have 2: "SPIenable (data linked)" by (simp add: linked_def)
  have 3: "attempt linked" by (simp add: linked_def attempt_def)
  have 4: "rx_header (reply_with (PRU_ESTOP sample) 7) = PRU_ESTOP sample"
    by (simp add: reply_with_def)
  have "SPIstatus (data linked)" by (simp add: linked_def)
  with estop_keeps_feedback [OF 1 2 3 4] show ?thesis by simp
qed

section \<open>The joint loop of update\_freq\<close>

subsection \<open>The blocks of the loop body, register by register\<close>

lemma check_scale_fields:
  "pos_scale_i (check_scale cfg j) =
     (if pos_scale_i j \<noteq> old_scale_i j \<and> pos_scale_i j < 1 / 10 ^ 20 \<and> pos_scale_i j > - (1 / 10 ^ 20)
      then 1 else pos_scale_i j)"
  "old_scale_i (check_scale cfg j) = pos_scale_i j"
  "scale_recip_i (check_scale cfg j) =
     (if pos_scale_i j \<noteq> old_scale_i j
      then (1 / STEP_MASK cfg) / pos_scale_i (check_scale cfg j) else scale_recip_i j)"
  "freq_i (check_scale cfg j) = freq_i j"
  "freq_cmd_i (check_scale cfg j) = freq_cmd_i j"
  "maxvel_i (check_scale cfg j) = maxvel_i j"
  "maxaccel_i (check_scale cfg j) = maxaccel_i j"
  "prev_cmd_i (check_scale cfg j) = prev_cmd_i j"
  "cmd_d_i (check_scale cfg j) = cmd_d_i j"
  "rest_cmd (check_scale cfg j) = rest_cmd j"
  by (simp_all add: check_scale_def Let_def rest_cmd_def)

lemma limit_maxvel_fields:
  "pos_scale_i (fst (limit_maxvel cfg j)) = pos_scale_i j"
  "old_scale_i (fst (limit_maxvel cfg j)) = old_scale_i j"
  "scale_recip_i (fst (limit_maxvel cfg j)) = scale_recip_i j"
  "freq_i (fst (limit_maxvel cfg j)) = freq_i j"
  "freq_cmd_i (fst (limit_maxvel cfg j)) = freq_cmd_i j"
  "maxaccel_i (fst (limit_maxvel cfg j)) = maxaccel_i j"
  "prev_cmd_i (fst (limit_maxvel cfg j)) = prev_cmd_i j"
  "cmd_d_i (fst (limit_maxvel cfg j)) = cmd_d_i j"
  "rest_cmd (fst (limit_maxvel cfg j)) = rest_cmd j"
  by (simp_all add: limit_maxvel_def Let_def rest_cmd_def)

lemma limit_maxaccel_fields:
  "pos_scale_i (fst (limit_maxaccel r m j)) = pos_scale_i j"
  "old_scale_i (fst (limit_maxaccel r m j)) = old_scale_i j"
  "scale_recip_i (fst (limit_maxaccel r m j)) = scale_recip_i j"
  "freq_i (fst (limit_maxaccel r m j)) = freq_i j"
  "freq_cmd_i (fst (limit_maxaccel r m j)) = freq_cmd_i j"
  "maxvel_i (fst (limit_maxaccel r m j)) = maxvel_i j"
  "prev_cmd_i (fst (limit_maxaccel r m j)) = prev_cmd_i j"
  "cmd_d_i (fst (limit_maxaccel r m j)) = cmd_d_i j"
  "rest_cmd (fst (limit_maxaccel r m j)) = rest_cmd j"
  by (simp_all add: limit_maxaccel_def Let_def rest_cmd_def)

lemma control_fields:
  "pos_scale_i (fst (control pr j)) = pos_scale_i j"
  "old_scale_i (fst (control pr j)) = old_scale_i j"
  "scale_recip_i (fst (control pr j)) = scale_recip_i j"
  "freq_i (fst (control pr j)) = freq_i j"
  "freq_cmd_i (fst (control pr j)) = freq_cmd_i j"
  "maxvel_i (fst (control pr j)) = maxvel_i j"
  "maxaccel_i (fst (control pr j)) = maxaccel_i j"
  "rest_cmd (fst (control pr j)) = rest_cmd j"
  by (simp_all add: control_def Let_def rest_cmd_def)

lemma joint_update_freq:
  "freq_i (joint_update cfg pr d r p j) =
     (if p then 0 else limit_slew (freq_i j) (max_ac_of cfg r j * d) (target_of cfg pr r j))"
  "freq_cmd_i (joint_update cfg pr d r p j) = freq_i (joint_update cfg pr d r p j)"
  by (simp_all add: joint_update_def Let_def split_def target_of_def vel_cmd_of_def
      at_control_def max_ac_of_def at_accel_def max_freq_of_def
      check_scale_fields limit_maxvel_fields limit_maxaccel_fields control_fields)

lemma joint_update_scale:
  "pos_scale_i (joint_update cfg pr d r p j) = pos_scale_i (check_scale cfg j)"
  "old_scale_i (joint_update cfg pr d r p j) = pos_scale_i j"
  "scale_recip_i (joint_update cfg pr d r p j) = scale_recip_i (check_scale cfg j)"
  by (simp_all add: joint_update_def Let_def split_def
      check_scale_fields limit_maxvel_fields limit_maxaccel_fields control_fields)


lemma joint_update_rest: "rest_cmd (joint_update cfg pr d r p j) = rest_cmd j"
proof -
  have "rest_cmd (j\<lparr>freq_i := a, freq_cmd_i := b\<rparr>) = rest_cmd j" for a b j
    by (simp add: rest_cmd_def)
  then show ?thesis
    by (simp add: joint_update_def Let_def split_def
      check_scale_fields limit_maxvel_fields limit_maxaccel_fields control_fields)
qed

subsection \<open>The loop, joint by joint\<close>

lemma get_put_cmd_same:
  "rest_cmd J = rest_cmd (get_joint i s) \<Longrightarrow> get_joint i (put_cmd i J s) = J"
  by (cases J) (simp add: get_joint_def put_cmd_def rest_cmd_def)

lemma get_put_cmd_other: "k \<noteq> i \<Longrightarrow> get_joint i (put_cmd k J s) = get_joint i s"
  by (simp add: get_joint_def put_cmd_def)

lemma put_cmd_globals:
  "dt (put_cmd k J s) = dt s" "recip_dt (put_cmd k J s) = recip_dt s"
  "old_dtns (put_cmd k J s) = old_dtns s"
  "stepperEnable (data (put_cmd k J s)) = stepperEnable (data s)"
  by (simp_all add: put_cmd_def)

lemma cmd_view_update_axis_other:
  "k \<noteq> i \<Longrightarrow> cmd_view i (update_axis cfg pr k s) = cmd_view i s"
  by (simp add: cmd_view_def update_axis_def get_put_cmd_other put_cmd_globals)

lemma cmd_view_update_axis_same:
  "cmd_view i (update_axis cfg pr i s) =
     (\<lambda>(j, d, r, p). (joint_update cfg pr d r p j, d, r, p)) (cmd_view i s)"
  by (simp add: cmd_view_def update_axis_def get_put_cmd_same joint_update_rest put_cmd_globals)

lemma cmd_view_loop:
  "cmd_view i (for_upto n (update_axis cfg pr) s) =
     (if i < n then (\<lambda>(j, d, r, p). (joint_update cfg pr d r p j, d, r, p)) (cmd_view i s)
      else cmd_view i s)"
  by (rule for_upto_slice) (simp_all add: cmd_view_update_axis_other cmd_view_update_axis_same)

lemma get_joint_period_check: "get_joint i (period_check period s) = get_joint i s"
  by (simp add: period_check_def Let_def get_joint_def)

lemma data_period_check: "data (period_check period s) = data s"
  by (simp add: period_check_def Let_def)

lemma get_joint_update_freq:
  "get_joint i (update_freq cfg period s) =
     (if i < JOINTS cfg
      then joint_update cfg (periodrecip_of period) (dt (period_check period s))
             (recip_dt (period_check period s)) (stepperEnable (data s) 0 = NULL) (get_joint i s)
      else get_joint i s)"
  using cmd_view_loop [of i "JOINTS cfg" cfg "periodrecip_of period" "period_check period s"]
  by (simp add: update_freq_def Let_def periodrecip_of_def cmd_view_def
      get_joint_period_check data_period_check split: if_splits)

lemma timing_update_freq:
  "dt (update_freq cfg period s) = dt (period_check period s)"
  "recip_dt (update_freq cfg period s) = recip_dt (period_check period s)"
  "old_dtns (update_freq cfg period s) = old_dtns (period_check period s)"
  "stepperEnable (data (update_freq cfg period s)) = stepperEnable (data s)"
proof -
  have a: "dt (update_axis cfg pr i s) = dt s" "recip_dt (update_axis cfg pr i s) = recip_dt s"
    "old_dtns (update_axis cfg pr i s) = old_dtns s"
    "stepperEnable (data (update_axis cfg pr i s)) = stepperEnable (data s)" for pr i s
    by (simp_all add: update_axis_def put_cmd_globals)
  show "dt (update_freq cfg period s) = dt (period_check period s)"
    by (simp add: update_freq_def Let_def for_upto_frame [where f = dt] a)
  show "recip_dt (update_freq cfg period s) = recip_dt (period_check period s)"
    by (simp add: update_freq_def Let_def for_upto_frame [where f = recip_dt] a)
  show "old_dtns (update_freq cfg period s) = old_dtns (period_check period s)"
    by (simp add: update_freq_def Let_def for_upto_frame [where f = old_dtns] a)
  show "stepperEnable (data (update_freq cfg period s)) = stepperEnable (data s)"
    by (simp add: update_freq_def Let_def
        for_upto_frame [where f = "\<lambda>s. stepperEnable (data s)"] a data_period_check)
qed

lemma get_joint_fields:
  "freq (data s) i = freq_i (get_joint i s)"
  "freq_cmd (data s) i = freq_cmd_i (get_joint i s)"
  "maxvel (data s) i = maxvel_i (get_joint i s)"
  "maxaccel (data s) i = maxaccel_i (get_joint i s)"
  "pos_scale (data s) i = pos_scale_i (get_joint i s)"
  "old_scale (data s) i = old_scale_i (get_joint i s)"
  "scale_recip (data s) i = scale_recip_i (get_joint i s)"
  by (simp_all add: get_joint_def)

lemma scale_update_freq:
  "i < JOINTS cfg \<Longrightarrow>
     pos_scale (data (update_freq cfg period s)) i =
       (if pos_scale (data s) i \<noteq> old_scale (data s) i \<and> pos_scale (data s) i < 1 / 10 ^ 20 \<and>
           pos_scale (data s) i > - (1 / 10 ^ 20)
        then 1 else pos_scale (data s) i) \<and>
     old_scale (data (update_freq cfg period s)) i = pos_scale (data s) i \<and>
     scale_recip (data (update_freq cfg period s)) i =
       (if pos_scale (data s) i \<noteq> old_scale (data s) i
        then (1 / STEP_MASK cfg) / pos_scale (data (update_freq cfg period s)) i
        else scale_recip (data s) i)"
  by (simp add: get_joint_fields get_joint_update_freq joint_update_scale check_scale_fields)

text \<open>\<^verbatim>\<open>update_freq\<close> never reads the memory behind an enable pin.\<close>

lemma for_upto_commute:
  assumes "\<And>i s. body i (f s) = f (body i s)"
  shows "for_upto n body (f s) = f (for_upto n body s)"
  by (induction n) (simp_all add: assms)

lemma update_freq_enable_blind:
  "update_freq cfg period (s\<lparr>hal_bit := b\<rparr>) = (update_freq cfg period s)\<lparr>hal_bit := b\<rparr>"
proof -
  have a: "update_axis cfg pr i (x\<lparr>hal_bit := b\<rparr>) = (update_axis cfg pr i x)\<lparr>hal_bit := b\<rparr>"
    for pr i x
    by (simp add: update_axis_def put_cmd_def get_joint_def)
  have p: "period_check period (s\<lparr>hal_bit := b\<rparr>) = (period_check period s)\<lparr>hal_bit := b\<rparr>"
    by (simp add: period_check_def Let_def)
  have c: "for_upto n (update_axis cfg pr) (x\<lparr>hal_bit := b\<rparr>) =
      (for_upto n (update_axis cfg pr) x)\<lparr>hal_bit := b\<rparr>" for n pr x
    by (rule for_upto_commute) (rule a)
  show ?thesis
    by (simp add: update_freq_def Let_def p c)
qed

subsection \<open>The arithmetic of the limits\<close>










subsection \<open>One call, one joint\<close>



subsection \<open>The other steps leave the command state alone\<close>












subsection \<open>The state rtapi\_app\_main returns\<close>










subsection \<open>The outbound frequency ratio\<close>




subsection \<open>Evaluation on the sample configuration\<close>

lemmas unfold_start = rtapi_app_main_def Let_def sample_def init_joint_def init_sp_def init_pv_def
  init_output_def init_input_def zero_rio_def zero_data_def pin_addr_def NULL_def eval_nat_numeral

lemmas unfold_update = update_freq_def period_check_def update_axis_def get_joint_def put_cmd_def
  joint_update_def check_scale_def limit_maxvel_def limit_maxaccel_def control_def error_of_def
  apply_deadband_def pgain_eff_def ff1gain_eff_def deadband_eff_def limit_freq_def limit_slew_def



section \<open>Claims about update\_freq and spi\_write\<close>

text \<open>
  C1 fails on the code. Line 684 tests \<^verbatim>\<open>*data->stepperEnable == 0\<close>, which compares
  the pointer to joint 0's enable pin with the null pointer; it is never null once
  \<^verbatim>\<open>rtapi_app_main\<close> has exported the pin. With the enable pin of joint 0 false and a
  position command of 1, one call of \<^verbatim>\<open>update_freq\<close> with a period of 1 ms publishes
  the frequency command 0.001 for joint 0, not 0.
\<close>

theorem update_freq_ignores_enable:
  "\<not> hal_bit (run sample [Host (Set_enable 0 False), Host (Set_pos_cmd 0 1)] s_start)
       (stepperEnable (data (run sample [Host (Set_enable 0 False), Host (Set_pos_cmd 0 1)] s_start)) 0) \<and>
   freq_cmd (data (update_freq sample 1000000
       (run sample [Host (Set_enable 0 False), Host (Set_pos_cmd 0 1)] s_start))) 0 = 1 / 1000"
  by (simp add: s_start_def unfold_start unfold_update)




text \<open>
  C3, as stated, fails. In the scenario (scale 1000, \<^verbatim>\<open>pgain\<close> 1, \<^verbatim>\<open>ff1gain\<close> 0,
  \<^verbatim>\<open>deadband\<close> 0, feedback 0, command stepping from 0 to 1, period 1 ms) the code takes
  the zero \<^verbatim>\<open>ff1gain\<close> as 1 and the zero \<^verbatim>\<open>deadband\<close> as 1/1000: the error is 0.999,
  the control output 1000.999 and the frequency target the ceiling 60000, not 1, 1 and
  1000.
\<close>

theorem step_response_counterexample:
  "error_of (at_control sample (recip_dt (update_freq sample 1000000 s_step)) (get_joint 0 s_step))
     = 999 / 1000 \<and>
   error_of (at_control sample (recip_dt (update_freq sample 1000000 s_step)) (get_joint 0 s_step))
     \<noteq> 1 \<and>
   vel_cmd_of sample (periodrecip_of 1000000) (recip_dt (update_freq sample 1000000 s_step))
     (get_joint 0 s_step) = 1000999 / 1000 \<and>
   vel_cmd_of sample (periodrecip_of 1000000) (recip_dt (update_freq sample 1000000 s_step))
     (get_joint 0 s_step) \<noteq> 1 \<and>
   target_of sample (periodrecip_of 1000000) (recip_dt (update_freq sample 1000000 s_step))
     (get_joint 0 s_step) = 60000 \<and>
   target_of sample (periodrecip_of 1000000) (recip_dt (update_freq sample 1000000 s_step))
     (get_joint 0 s_step) \<noteq> 1000"
  by (simp add: timing_update_freq s_step_def s_start_def unfold_start unfold_update target_of_def
      vel_cmd_of_def at_control_def max_ac_of_def at_accel_def max_freq_of_def periodrecip_of_def)

text \<open>
  C3, amended. For a joint in position mode with scale 1000, \<^verbatim>\<open>pgain\<close> 1, \<^verbatim>\<open>ff1gain\<close>
  0, \<^verbatim>\<open>deadband\<close> 0, feedback 0, command 1 and previous command 0, one call of
  \<^verbatim>\<open>update_freq\<close> computes the error 1 - 1/1000 (the deadband defaults to 1/scale), the
  control output 0.999 + 1/period (the feed-forward gain defaults to 1), the frequency
  target 1000 times that, clamped to the frequency ceiling, and publishes the previous
  frequency moved towards the target by at most \<^verbatim>\<open>max_ac * dt\<close>.
\<close>

theorem step_response:
  assumes "i < JOINTS cfg" and "stepperEnable (data s) 0 \<noteq> NULL" and "pos_mode (data s) i"
    and "pos_scale (data s) i = 1000" and "pgain (data s) i = 1" and "ff1gain (data s) i = 0"
    and "deadband (data s) i = 0" and "pos_fb (data s) i = 0" and "pos_cmd (data s) i = 1"
    and "prev_cmd (data s) i = 0"
  shows "error_of (at_control cfg (recip_dt (update_freq cfg period s)) (get_joint i s)) = 999 / 1000 \<and>
         vel_cmd_of cfg (periodrecip_of period) (recip_dt (update_freq cfg period s)) (get_joint i s)
           = 999 / 1000 + periodrecip_of period \<and>
         target_of cfg (periodrecip_of period) (recip_dt (update_freq cfg period s)) (get_joint i s)
           = limit_freq (max_freq_of cfg (get_joint i s)) (999 + 1000 * periodrecip_of period) \<and>
         freq_cmd (data (update_freq cfg period s)) i =
           limit_slew (freq (data s) i)
             (max_ac_of cfg (recip_dt (update_freq cfg period s)) (get_joint i s)
                * dt (update_freq cfg period s))
             (target_of cfg (periodrecip_of period) (recip_dt (update_freq cfg period s))
                (get_joint i s))"
proof -
  let ?j = "get_joint i s"
  let ?r = "recip_dt (update_freq cfg period s)"
  let ?c = "at_control cfg ?r ?j"
  have sc: "pos_scale_i (check_scale cfg ?j) = 1000"
    using assms(4) by (simp add: check_scale_fields get_joint_def)
  have c: "pos_mode_i ?c" "pos_scale_i ?c = 1000" "pgain_i ?c = 1" "ff1gain_i ?c = 0"
    "deadband_i ?c = 0" "pos_fb_i ?c = 0" "pos_cmd_i ?c = 1" "prev_cmd_i ?c = 0"
  proof -
    have "rest_cmd ?c = rest_cmd ?j"
      by (simp add: at_control_def at_accel_def limit_maxaccel_fields limit_maxvel_fields
          check_scale_fields)
    then show "pos_mode_i ?c" "pgain_i ?c = 1" "ff1gain_i ?c = 0" "deadband_i ?c = 0"
      "pos_fb_i ?c = 0" "pos_cmd_i ?c = 1"
      using assms by (simp_all add: rest_cmd_def get_joint_def)
    show "pos_scale_i ?c = 1000"
      using sc by (simp add: at_control_def at_accel_def limit_maxaccel_fields limit_maxvel_fields)
    show "prev_cmd_i ?c = 0"
      using assms(10)
      by (simp add: at_control_def at_accel_def limit_maxaccel_fields limit_maxvel_fields
          check_scale_fields get_joint_def)
  qed
  have e: "error_of ?c = 999 / 1000"
    by (simp add: error_of_def deadband_eff_def apply_deadband_def c)
  have v: "vel_cmd_of cfg (periodrecip_of period) ?r ?j = 999 / 1000 + periodrecip_of period"
    by (simp add: vel_cmd_of_def control_def Let_def e c pgain_eff_def ff1gain_eff_def)
  have t: "target_of cfg (periodrecip_of period) ?r ?j
           = limit_freq (max_freq_of cfg ?j) (999 + 1000 * periodrecip_of period)"
    by (simp add: target_of_def v c algebra_simps)
  have f: "freq_cmd (data (update_freq cfg period s)) i =
           limit_slew (freq (data s) i) (max_ac_of cfg ?r ?j * dt (update_freq cfg period s))
             (target_of cfg (periodrecip_of period) ?r ?j)"
    using assms(1,2)
    by (simp add: get_joint_fields get_joint_update_freq joint_update_freq timing_update_freq)
  from e v t f show ?thesis by simp
qed

theorem step_response_witness:
  "error_of (at_control sample (recip_dt (update_freq sample 1000000 s_step)) (get_joint 0 s_step))
     = 999 / 1000 \<and>
   vel_cmd_of sample (periodrecip_of 1000000) (recip_dt (update_freq sample 1000000 s_step))
     (get_joint 0 s_step) = 999 / 1000 + periodrecip_of 1000000 \<and>
   freq_cmd (data (update_freq sample 1000000 s_step)) 0 =
     limit_slew (freq (data s_step) 0)
       (max_ac_of sample (recip_dt (update_freq sample 1000000 s_step)) (get_joint 0 s_step)
          * dt (update_freq sample 1000000 s_step))
       (target_of sample (periodrecip_of 1000000) (recip_dt (update_freq sample 1000000 s_step))
          (get_joint 0 s_step))"
proof -
  have h: "(0::nat) < JOINTS sample" "stepperEnable (data s_step) 0 \<noteq> NULL"
    "pos_mode (data s_step) 0" "pos_scale (data s_step) 0 = 1000" "pgain (data s_step) 0 = 1"
    "ff1gain (data s_step) 0 = 0" "deadband (data s_step) 0 = 0" "pos_fb (data s_step) 0 = 0"
    "pos_cmd (data s_step) 0 = 1" "prev_cmd (data s_step) 0 = 0"
    by (simp_all add: s_step_def s_start_def unfold_start)
  from step_response [OF h, of 1000000] show ?thesis by simp
qed



text \<open>
  C8 fails on the code. Line 537 stores the new scale in \<^verbatim>\<open>old_scale\<close> before line 540
  corrects it, so a scale of 0 written again after a correction equals \<^verbatim>\<open>old_scale\<close>,
  the test of line 536 is false and the scale stays 0. After a first call, the first write
  of 0 is corrected to 1 by the next call; the second write of 0 survives the call after it.
\<close>

theorem scale_zero_survives:
  "pos_scale (data (run sample
      [Update_freq 1000000, Host (Set_scale 0 0), Update_freq 1000000] s_start)) 0 = 1 \<and>
   pos_scale (data (run sample
      [Update_freq 1000000, Host (Set_scale 0 0), Update_freq 1000000,
       Host (Set_scale 0 0), Update_freq 1000000] s_start)) 0 = 0"
proof -
  have i: "(0::nat) < JOINTS sample" by (simp add: sample_def)
  have a: "pos_scale (data s_start) 0 = 1" "old_scale (data s_start) 0 = 0"
    by (simp_all add: s_start_def unfold_start)
  show ?thesis
    using i a by (simp add: scale_update_freq)
qed



section \<open>The feedback loop of spi\_read\<close>
















text \<open>
  Line 726 divides the raw counter by \<^verbatim>\<open>joints_fb_scale[i]\<close> before the subtraction. With
  a divisor other than 1 the quotient no longer wraps at the width of the counter: when the
  counter steps from \<^verbatim>\<open>0x7FFFFFFF\<close> to \<^verbatim>\<open>0x80000000\<close> and the divisor is 2, the
  difference comes out as -2147483647.
\<close>

lemma scaled_counter_breaks_rollover:
  assumes "joints_fb_type cfg i \<noteq> JOINT_FB_ABS" and "joints_fb_scale cfg i = 2"
    and "old_count_i j = 0x3FFFFFFF" and "jointFeedback_i j = 0x80000000"
  shows "sint (snd (read_joint cfg i d j)) = - 2147483647"
  using assms by (simp add: read_joint_def Let_def int32_div_def signed_divide_int_def)

section \<open>Claims about the feedback loop\<close>




end
